theory Spec2Isabelle
  imports Main "HOL-Library.Word"
begin

unbundle bit_operations_syntax

section \<open>nn/runtime/Callbacks.h: the callback objects\<close>

text \<open>
  The header declares three classes. \<open>CallbackBase\<close> holds the synchronisation state,
  \<open>PreparedModelCallback\<close> and \<open>ExecutionCallback\<close> derive from it and add the result
  of the asynchronous task. Only the header is among the sources: the bodies of
  \<open>setOnFinish\<close> and the two-argument \<open>ExecutionCallback::notify\<close> are written in
  it and are translated from it; every other member function but \<open>wait_for\<close> is
  declared there and defined in Callbacks.cpp, and is modelled from the specification
  (each such definition says so). \<open>wait_for\<close> has no translation, see below.

  Every member function that touches the state does so while holding \<open>mMutex\<close>, so a
  call is one atomic step on the object's state, whichever thread makes it. The mutex
  and the condition variable themselves are not part of the state. A call that cannot
  return in the current state (it would stay blocked on the condition variable) is the
  value \<open>None\<close>.
\<close>

subsection \<open>Library types\<close>

text \<open>The HAL's \<open>V1_0::ErrorStatus\<close>, with the enumerators the header's comments list.\<close>

datatype ErrorStatus =
  NONE | DEVICE_UNAVAILABLE | GENERAL_FAILURE | OUTPUT_INSUFFICIENT_SIZE | INVALID_ARGUMENT

text \<open>
  \<open>std::thread\<close>: a handle that either represents a thread of execution (identified
  here by a number) or does not. A default-constructed, a moved-from and a joined handle
  all are \<open>NoThread\<close>.
\<close>

datatype thread = NoThread | Thread nat

fun joinable :: "thread \<Rightarrow> bool" where
  "joinable NoThread = False"
| "joinable (Thread tid) = True"

subsection \<open>CallbackBase\<close>

text \<open>
  The private members \<open>mNotified\<close>, \<open>mPostWork\<close> and \<open>mThread\<close>. A
  \<open>std::function\<close> is \<open>None\<close> when it has no target (it compares equal to
  \<open>nullptr\<close>). Two further fields keep what the members do not show: \<open>joined\<close>
  lists the bound threads that have been reclaimed (the threads on which \<open>join()\<close>
  has been executed), in order, and \<open>postWorkRuns\<close> lists the value returned by each
  invocation of the post-work function, in order.
\<close>

record CallbackBase =
  mNotified :: bool
  mPostWork :: "(unit \<Rightarrow> bool) option"
  mThread :: thread
  joined :: "nat list"
  postWorkRuns :: "bool list"

text \<open>
  Modelled from the spec: the constructor \<open>CallbackBase::CallbackBase()\<close> (defined in
  Callbacks.cpp). "Lifecycle: created pending"; no deferred work and no thread is
  attached to a new object.
\<close>

definition CallbackBase_new :: CallbackBase where
  "CallbackBase_new =
     \<lparr>mNotified = False, mPostWork = None, mThread = NoThread, joined = [], postWorkRuns = []\<rparr>"

text \<open>
  Modelled from the spec: \<open>CallbackBase::join_thread_locked\<close> (defined in
  Callbacks.cpp), "Same as CallbackBase::join_thread but assumes we already hold a lock
  on mMutex". \<open>join_thread\<close> "reclaims the bound thread if one exists and has not yet
  been reclaimed; idempotent ... exactly one physical join occurs". Joining a
  \<open>std::thread\<close> leaves the handle not joinable.
\<close>

definition join_thread_locked :: "'a CallbackBase_scheme \<Rightarrow> 'a CallbackBase_scheme" where
  "join_thread_locked s =
     (case mThread s of
        NoThread \<Rightarrow> s
      | Thread tid \<Rightarrow> s\<lparr>mThread := NoThread, joined := joined s @ [tid]\<rparr>)"

text \<open>Modelled from the spec: \<open>CallbackBase::join_thread\<close> (defined in Callbacks.cpp).\<close>

definition join_thread :: "'a CallbackBase_scheme \<Rightarrow> 'a CallbackBase_scheme" where
  "join_thread s = join_thread_locked s"

text \<open>
  Modelled from the spec: \<open>CallbackBase::wait\<close> (defined in Callbacks.cpp). "Blocks the
  calling thread until notified becomes true. Returns only after the completion flip,
  and after any bound thread has been reclaimed."
\<close>

definition wait :: "'a CallbackBase_scheme \<Rightarrow> 'a CallbackBase_scheme option" where
  "wait s = (if mNotified s then Some (join_thread_locked s) else None)"

text \<open>
  \<open>CallbackBase::wait_for\<close> is written in the header:
  \<^verbatim>\<open>
    std::unique_lock<std::mutex> lock(mMutex);
    std::cv_status status = mCondition.wait_for(lock, timeout_duration, [this]{return mNotified;});
    if (status != std::cv_status::timeout) {
        join_thread_locked();
    }
    return status;
  \<close>
  It has no translation. The overload of \<open>std::condition_variable::wait_for\<close> that
  takes a predicate returns a \<open>bool\<close>, and the body initialises a
  \<open>std::cv_status\<close>, a scoped enumeration, with it: the template is ill-formed for
  every duration type and cannot be instantiated. The sources therefore fix no value
  that a call would return and no condition under which it would join the thread, and
  no call of \<open>wait_for\<close> occurs in a history below.
\<close>

text \<open>
  Modelled from the spec: \<open>CallbackBase::on_finish\<close> (defined in Callbacks.cpp).
  "Registers deferredWork. Fails (returns false) if work is empty/unset or if a deferred
  work item is already registered."
\<close>

definition on_finish ::
  "(unit \<Rightarrow> bool) option \<Rightarrow> 'a CallbackBase_scheme \<Rightarrow> bool \<times> 'a CallbackBase_scheme" where
  "on_finish post_work s =
     (if mPostWork s \<noteq> None then (False, s)
      else if post_work = None then (False, s)
      else (True, s\<lparr>mPostWork := post_work\<rparr>))"

text \<open>
  Modelled from the spec: \<open>CallbackBase::bind_thread\<close> (defined in Callbacks.cpp).
  "Attaches a joinable thread to the object for later reclamation. Fails (returns false)
  if a thread is already bound or if the supplied thread is not in a joinable state."
  The spec gives an object "at most one bound/join pair" ("at most one may be
  attached") and lists a double \<open>bind_thread\<close> among the calls that return false; the
  header says that \<open>bind_thread\<close> "can be called at most once on a given callback
  object". So a thread is already bound when the object holds one or has held and
  joined one. The argument is an rvalue reference: the second component of the result is
  the caller's handle after the call, moved from when the thread was attached and
  untouched otherwise.
\<close>

definition bind_thread ::
  "thread \<Rightarrow> 'a CallbackBase_scheme \<Rightarrow> bool \<times> thread \<times> 'a CallbackBase_scheme" where
  "bind_thread asyncThread s =
     (if joinable (mThread s) \<or> joined s \<noteq> [] then (False, asyncThread, s)
      else if \<not> joinable asyncThread then (False, asyncThread, s)
      else (True, NoThread, s\<lparr>mThread := asyncThread\<rparr>))"

text \<open>
  Modelled from the spec: \<open>CallbackBase::notify\<close> (defined in Callbacks.cpp). "Sets
  notified, runs deferredWork exactly once if registered, then releases all current and
  future waiters." The header has the function "invoked the first time
  CallbackBase::notify is called": it runs when the object was not notified before.
\<close>

definition CallbackBase_notify :: "'a CallbackBase_scheme \<Rightarrow> 'a CallbackBase_scheme" where
  "CallbackBase_notify s =
     (let first = \<not> mNotified s;
          s1 = s\<lparr>mNotified := True\<rparr> in
      case mPostWork s1 of
        None \<Rightarrow> s1
      | Some post_work \<Rightarrow>
          if first then s1\<lparr>postWorkRuns := postWorkRuns s1 @ [post_work ()]\<rparr> else s1)"

subsection \<open>Histories of calls on a CallbackBase\<close>

text \<open>
  A history is the list of calls made on one object, by any threads, in the order in
  which they take the lock. \<open>Call_wait\<close> stands for a \<open>wait()\<close> inspecting the state
  at that moment: it returns, or stays blocked and leaves the state as it is.
\<close>

datatype call =
  Call_wait
| Call_on_finish "(unit \<Rightarrow> bool) option"
| Call_bind_thread thread
| Call_join_thread
| Call_notify

datatype outcome = Blocks | Returns | Returns_bool bool

fun call_step :: "call \<Rightarrow> 'a CallbackBase_scheme \<Rightarrow> outcome \<times> 'a CallbackBase_scheme" where
  "call_step Call_wait s = (case wait s of None \<Rightarrow> (Blocks, s) | Some s' \<Rightarrow> (Returns, s'))"
| "call_step (Call_on_finish post_work) s =
     (case on_finish post_work s of (ok, s') \<Rightarrow> (Returns_bool ok, s'))"
| "call_step (Call_bind_thread t) s =
     (case bind_thread t s of (ok, t', s') \<Rightarrow> (Returns_bool ok, s'))"
| "call_step Call_join_thread s = (Returns, join_thread s)"
| "call_step Call_notify s = (Returns, CallbackBase_notify s)"

fun run :: "call list \<Rightarrow> 'a CallbackBase_scheme \<Rightarrow> outcome list \<times> 'a CallbackBase_scheme" where
  "run [] s = ([], s)"
| "run (c # cs) s =
     (case call_step c s of (r, s') \<Rightarrow> (case run cs s' of (rs, s'') \<Rightarrow> (r # rs, s'')))"

subsection \<open>PreparedModelCallback\<close>

text \<open>
  \<open>sp<V1_0::IPreparedModel>\<close> is a nullable reference to a prepared model: \<open>None\<close> is
  \<open>nullptr\<close>. A \<open>V1_2::IPreparedModel\<close> is stored through the same reference type.
\<close>

record 'pm PreparedModelCallback = CallbackBase +
  mErrorStatus :: ErrorStatus
  mPreparedModel :: "'pm option"

text \<open>
  Modelled from the spec: \<open>PreparedModelCallback::notify\<close> (defined in Callbacks.cpp).
  Both completion entry points: "stores status and artifact, then calls the base
  notify()".
\<close>

definition PreparedModelCallback_notify ::
  "ErrorStatus \<Rightarrow> 'pm option \<Rightarrow> ('pm, 'a) PreparedModelCallback_scheme
     \<Rightarrow> ('pm, 'a) PreparedModelCallback_scheme" where
  "PreparedModelCallback_notify status preparedModel s =
     CallbackBase_notify (s\<lparr>mErrorStatus := status, mPreparedModel := preparedModel\<rparr>)"

text \<open>
  Modelled from the spec: \<open>PreparedModelCallback::notify_1_2\<close> (defined in
  Callbacks.cpp), the second of the two entry points, with the same effect. The
  \<open>V1_2\<close> reference is stored in the same member.
\<close>

definition PreparedModelCallback_notify_1_2 ::
  "ErrorStatus \<Rightarrow> 'pm option \<Rightarrow> ('pm, 'a) PreparedModelCallback_scheme
     \<Rightarrow> ('pm, 'a) PreparedModelCallback_scheme" where
  "PreparedModelCallback_notify_1_2 status preparedModel s =
     CallbackBase_notify (s\<lparr>mErrorStatus := status, mPreparedModel := preparedModel\<rparr>)"

text \<open>
  Modelled from the spec: \<open>PreparedModelCallback::getStatus\<close> (defined in
  Callbacks.cpp). "Blocks (via wait()) until completion, then returns status."
\<close>

definition PreparedModelCallback_getStatus ::
  "('pm, 'a) PreparedModelCallback_scheme
     \<Rightarrow> (ErrorStatus \<times> ('pm, 'a) PreparedModelCallback_scheme) option" where
  "PreparedModelCallback_getStatus s =
     (case wait s of None \<Rightarrow> None | Some s' \<Rightarrow> Some (mErrorStatus s', s'))"

text \<open>
  Modelled from the spec: \<open>PreparedModelCallback::getPreparedModel\<close> (defined in
  Callbacks.cpp). "Blocks until completion, then returns artifact."
\<close>

definition getPreparedModel ::
  "('pm, 'a) PreparedModelCallback_scheme
     \<Rightarrow> ('pm option \<times> ('pm, 'a) PreparedModelCallback_scheme) option" where
  "getPreparedModel s =
     (case wait s of None \<Rightarrow> None | Some s' \<Rightarrow> Some (mPreparedModel s', s'))"

text \<open>
  Histories on a PreparedModelCallback after its completion: calls of the base class
  and of the two getters, from any threads.
\<close>

datatype pm_call = Base_call call | Call_getStatus | Call_getPreparedModel

datatype 'pm pm_outcome =
  Base_outcome outcome | Getter_blocks | Status ErrorStatus | PreparedModel "'pm option"

fun pm_step ::
  "pm_call \<Rightarrow> ('pm, 'a) PreparedModelCallback_scheme
     \<Rightarrow> 'pm pm_outcome \<times> ('pm, 'a) PreparedModelCallback_scheme" where
  "pm_step (Base_call c) s = (case call_step c s of (r, s') \<Rightarrow> (Base_outcome r, s'))"
| "pm_step Call_getStatus s =
     (case PreparedModelCallback_getStatus s of
        None \<Rightarrow> (Getter_blocks, s)
      | Some (status, s') \<Rightarrow> (Status status, s'))"
| "pm_step Call_getPreparedModel s =
     (case getPreparedModel s of
        None \<Rightarrow> (Getter_blocks, s)
      | Some (pm, s') \<Rightarrow> (PreparedModel pm, s'))"

fun pm_run ::
  "pm_call list \<Rightarrow> ('pm, 'a) PreparedModelCallback_scheme
     \<Rightarrow> 'pm pm_outcome list \<times> ('pm, 'a) PreparedModelCallback_scheme" where
  "pm_run [] s = ([], s)"
| "pm_run (c # cs) s =
     (case pm_step c s of (r, s') \<Rightarrow> (case pm_run cs s' of (rs, s'') \<Rightarrow> (r # rs, s'')))"

text \<open>What a getter must answer after completion with \<open>(status, preparedModel)\<close>.\<close>

fun pm_expected :: "ErrorStatus \<Rightarrow> 'pm option \<Rightarrow> pm_call \<times> 'pm pm_outcome \<Rightarrow> bool" where
  "pm_expected status pm (Call_getStatus, r) = (r = Status status)"
| "pm_expected status pm (Call_getPreparedModel, r) = (r = PreparedModel pm)"
| "pm_expected status pm (Base_call c, r) = True"

subsection \<open>ExecutionCallback\<close>

text \<open>
  \<open>mOutputShapes\<close> is a vector of the HAL's \<open>OutputShape\<close>, whose content plays no role
  here: it is the type parameter \<open>'os\<close>. \<open>mOnFinish\<close> is a
  \<open>std::function<ErrorStatus(ErrorStatus)>\<close>.
\<close>

record 'os ExecutionCallback = CallbackBase +
  mErrorStatus :: ErrorStatus
  mOutputShapes :: "'os list"
  mOnFinish :: "(ErrorStatus \<Rightarrow> ErrorStatus) option"

text \<open>
  \<open>ExecutionCallback::setOnFinish\<close>, from the header:
  \<^verbatim>\<open>void setOnFinish(const ExecutionFinish& finish) { mOnFinish = finish; }\<close>
\<close>

definition setOnFinish ::
  "(ErrorStatus \<Rightarrow> ErrorStatus) option \<Rightarrow> ('os, 'a) ExecutionCallback_scheme
     \<Rightarrow> ('os, 'a) ExecutionCallback_scheme" where
  "setOnFinish finish s = s\<lparr>mOnFinish := finish\<rparr>"

text \<open>
  Modelled from the spec: \<open>ExecutionCallback::notify_1_2\<close> (defined in Callbacks.cpp).
  "If a finishTransform was registered, it is applied to status before storage; the
  transformed value is what gets stored and what getStatus() subsequently returns.
  Effect: stores (possibly transformed) status and outputShapes, then calls the base
  notify()."
\<close>

definition ExecutionCallback_notify_1_2 ::
  "ErrorStatus \<Rightarrow> 'os list \<Rightarrow> ('os, 'a) ExecutionCallback_scheme
     \<Rightarrow> ('os, 'a) ExecutionCallback_scheme" where
  "ExecutionCallback_notify_1_2 status outputShapes s =
     (let stored = (case mOnFinish s of None \<Rightarrow> status | Some finish \<Rightarrow> finish status) in
      CallbackBase_notify (s\<lparr>mErrorStatus := stored, mOutputShapes := outputShapes\<rparr>))"

text \<open>
  Modelled from the spec: the one-argument \<open>ExecutionCallback::notify\<close> (defined in
  Callbacks.cpp), the plain-status entry point: as above, and "getOutputShapes() returns
  an empty sequence if the object was completed via the plain-status entry point".
\<close>

definition ExecutionCallback_notify ::
  "ErrorStatus \<Rightarrow> ('os, 'a) ExecutionCallback_scheme \<Rightarrow> ('os, 'a) ExecutionCallback_scheme" where
  "ExecutionCallback_notify status s =
     (let stored = (case mOnFinish s of None \<Rightarrow> status | Some finish \<Rightarrow> finish status) in
      CallbackBase_notify (s\<lparr>mErrorStatus := stored, mOutputShapes := []\<rparr>))"

text \<open>
  The two-argument overload \<open>ExecutionCallback::notify\<close>, from the header:
  \<^verbatim>\<open>
    Return<void> notify(ErrorStatus status, const hidl_vec<OutputShape>& outputShapes) {
        return notify_1_2(status, outputShapes);
    }
  \<close>
  A \<open>Return<void>\<close> carries no value; the result is the object's state.
\<close>

definition ExecutionCallback_notify_shapes ::
  "ErrorStatus \<Rightarrow> 'os list \<Rightarrow> ('os, 'a) ExecutionCallback_scheme
     \<Rightarrow> ('os, 'a) ExecutionCallback_scheme" where
  "ExecutionCallback_notify_shapes status outputShapes s =
     ExecutionCallback_notify_1_2 status outputShapes s"

text \<open>
  Modelled from the spec: \<open>ExecutionCallback::getStatus\<close> (defined in Callbacks.cpp).
  "getStatus(), getOutputShapes(): both block until completion"; the first returns the
  stored status.
\<close>

definition ExecutionCallback_getStatus ::
  "('os, 'a) ExecutionCallback_scheme
     \<Rightarrow> (ErrorStatus \<times> ('os, 'a) ExecutionCallback_scheme) option" where
  "ExecutionCallback_getStatus s =
     (case wait s of None \<Rightarrow> None | Some s' \<Rightarrow> Some (mErrorStatus s', s'))"

text \<open>
  Modelled from the spec: \<open>ExecutionCallback::getOutputShapes\<close> (defined in
  Callbacks.cpp). It blocks until completion and returns the stored output shapes.
\<close>

definition getOutputShapes ::
  "('os, 'a) ExecutionCallback_scheme
     \<Rightarrow> ('os list \<times> ('os, 'a) ExecutionCallback_scheme) option" where
  "getOutputShapes s =
     (case wait s of None \<Rightarrow> None | Some s' \<Rightarrow> Some (mOutputShapes s', s'))"

section \<open>nn/common/operations/StridedSlice.cpp\<close>

subsection \<open>Types and helpers declared outside the file\<close>

text \<open>
  The HAL's \<open>OperandType\<close>. The function names two of its enumerators; every other
  one is \<open>Other_OperandType\<close> with its numeric value.
\<close>

datatype OperandType = TENSOR_FLOAT32 | TENSOR_QUANT8_ASYMM | Other_OperandType nat

text \<open>
  \<open>Shape\<close>: the function reads the member \<open>type\<close> and hands the shape to helpers;
  \<open>dimensions\<close> are the sizes of the dimensions, as unsigned 32-bit values.
\<close>

record Shape =
  type :: OperandType
  dimensions :: "32 word list"

text \<open>
  The helpers the function calls are declared in Operations.h and CpuOperationUtils.h,
  which are not among the sources. Nothing is assumed about them: they are the fields of
  a record that the model takes as its first argument. \<open>int32_t\<close>, \<open>uint32_t\<close> and
  \<open>int\<close> values are 32-bit words; a signed reading is written out where the code
  compares (\<open><s\<close>) or counts (\<open>sint\<close>).
\<close>

record 'dims OperationsUtils =
  getNumberOfDimensions :: "Shape \<Rightarrow> 32 word"
  getSizeOfDimension :: "Shape \<Rightarrow> 32 word \<Rightarrow> 32 word"
  ClampedIndex :: "32 word \<Rightarrow> 32 word \<Rightarrow> bool \<Rightarrow> 32 word"
  ReverseMaskBits :: "32 word \<Rightarrow> 32 word \<Rightarrow> 32 word"
  convertShapeToDims :: "Shape \<Rightarrow> 'dims"

text \<open>
  \<open>tflite::reference_ops::StridedSlice\<close> is a library function that writes the output
  buffer. A call of it is recorded with its arguments, in the order of the source;
  \<open>element\<close> is the element type at which the template is instantiated.
\<close>

datatype element = Float32 | UInt8

record ('buf, 'dims) StridedSlice_call =
  element :: element
  arg_input_data :: 'buf
  arg_input_dims :: 'dims
  arg_begin_mask :: "32 word"
  arg_end_mask :: "32 word"
  arg_starts :: "32 word list"
  arg_stops :: "32 word list"
  arg_strides :: "32 word list"
  arg_output_data :: 'buf
  arg_output_dims :: 'dims

subsection \<open>stridedSliceGeneric\<close>

text \<open>
  The first loop,
  \<^verbatim>\<open>for (int32_t idx = numInputDims - 1; idx >= 0; --idx)\<close>,
  with the three vectors as its state. The argument \<open>Suc idx\<close> counts the iterations
  left, so the body runs at index \<open>idx\<close>. \<open>beginData\<close>, \<open>endData\<close> and
  \<open>stridesData\<close> are pointers: reading \<open>p[idx]\<close> is the function \<open>p\<close> at \<open>idx\<close>.
  \<open>NN_OPS_CHECK(stride != 0)\<close> makes the function return false when the stride is
  zero: the loop's result is \<open>None\<close> then. The source's \<open>begin\<close> and \<open>end\<close> are
  \<open>begin'\<close> and \<open>end'\<close> here. \<open>1 << idx\<close> is \<open>push_bit idx 1\<close>. Where C
  leaves a signed operation undefined (\<open>dim - 1\<close> at the least \<open>int32_t\<close>, a shift
  by 31 or more) the model has the value of the operation on words.
\<close>

fun bounds_loop ::
  "'dims OperationsUtils \<Rightarrow> Shape \<Rightarrow> (nat \<Rightarrow> 32 word) \<Rightarrow> 32 word \<Rightarrow> (nat \<Rightarrow> 32 word) \<Rightarrow> 32 word
     \<Rightarrow> (nat \<Rightarrow> 32 word) \<Rightarrow> nat \<Rightarrow> 32 word list \<times> 32 word list \<times> 32 word list
     \<Rightarrow> (32 word list \<times> 32 word list \<times> 32 word list) option" where
  "bounds_loop U inputShape beginData beginMask endData endMask stridesData 0
     (starts, stops, strides) = Some (starts, stops, strides)"
| "bounds_loop U inputShape beginData beginMask endData endMask stridesData (Suc idx)
     (starts, stops, strides) =
     (let dim = getSizeOfDimension U inputShape (word_of_nat idx);
          stride = stridesData idx in
      if \<not> (stride \<noteq> 0) then None
      else
        let positiveStride = (0 <s stride);
            begin' =
              (if beginMask AND push_bit idx 1 \<noteq> 0
               then (if positiveStride then 0 else dim - 1)
               else ClampedIndex U (beginData idx) dim positiveStride);
            end' =
              (if endMask AND push_bit idx 1 \<noteq> 0
               then (if positiveStride then dim else - 1)
               else ClampedIndex U (endData idx) dim positiveStride)
        in bounds_loop U inputShape beginData beginMask endData endMask stridesData idx
             (starts @ [begin'], stops @ [end'], strides @ [stride]))"

definition kMaxDim :: int where
  "kMaxDim = 4"

text \<open>
  The second loop, \<^verbatim>\<open>for (int i = numInputDims; i < kMaxDim; i++)\<close>, with \<open>i\<close> read
  as a signed number.
\<close>

function pad_loop ::
  "int \<Rightarrow> 32 word list \<times> 32 word list \<times> 32 word list
     \<Rightarrow> 32 word list \<times> 32 word list \<times> 32 word list" where
  "pad_loop i (starts, stops, strides) =
     (if i < kMaxDim then pad_loop (i + 1) (starts @ [0], stops @ [1], strides @ [1])
      else (starts, stops, strides))"
  by pat_completeness auto
termination
  by (relation "measure (\<lambda>(i, v). nat (kMaxDim - i))") auto

declare pad_loop.simps [simp del]

text \<open>
  The function. Its result is the value it returns and the call of the library's
  \<open>StridedSlice\<close> it made, if any.
\<close>

definition stridedSliceGeneric ::
  "'dims OperationsUtils \<Rightarrow> 'buf \<Rightarrow> Shape \<Rightarrow> (nat \<Rightarrow> 32 word) \<Rightarrow> 32 word \<Rightarrow> (nat \<Rightarrow> 32 word)
     \<Rightarrow> 32 word \<Rightarrow> (nat \<Rightarrow> 32 word) \<Rightarrow> 'buf \<Rightarrow> Shape
     \<Rightarrow> bool \<times> ('buf, 'dims) StridedSlice_call option" where
  "stridedSliceGeneric U inputData inputShape beginData beginMask endData endMask stridesData
     outputData outputShape =
     (let numInputDims = getNumberOfDimensions U inputShape in
      case bounds_loop U inputShape beginData beginMask endData endMask stridesData
             (nat (sint numInputDims)) ([], [], []) of
        None \<Rightarrow> (False, None)
      | Some v \<Rightarrow>
          (case pad_loop (sint numInputDims) v of
             (starts, stops, strides) \<Rightarrow>
               let beginMask' = ReverseMaskBits U beginMask numInputDims;
                   endMask' = ReverseMaskBits U endMask numInputDims;
                   slice = (\<lambda>T. \<lparr>element = T,
                      arg_input_data = inputData,
                      arg_input_dims = convertShapeToDims U inputShape,
                      arg_begin_mask = beginMask', arg_end_mask = endMask',
                      arg_starts = starts, arg_stops = stops, arg_strides = strides,
                      arg_output_data = outputData,
                      arg_output_dims = convertShapeToDims U outputShape\<rparr>)
               in
               if type inputShape = TENSOR_FLOAT32 then (True, Some (slice Float32))
               else if type inputShape = TENSOR_QUANT8_ASYMM then (True, Some (slice UInt8))
               else (False, None)))"

subsection \<open>The bounds as the description gives them\<close>

text \<open>
  For dimension \<open>idx\<close> of size \<open>dim\<close>: the begin index is 0 for a positive stride
  (\<open>dim - 1\<close> for a negative one) when bit \<open>idx\<close> of \<open>beginMask\<close> is set, and
  \<open>ClampedIndex(beginData[idx], dim, positiveStride)\<close> otherwise; the end index is
  \<open>dim\<close> for a positive stride (\<open>-1\<close> for a negative one) when bit \<open>idx\<close> of
  \<open>endMask\<close> is set, and \<open>ClampedIndex(endData[idx], dim, positiveStride)\<close> otherwise.
\<close>

definition described_begin ::
  "'dims OperationsUtils \<Rightarrow> Shape \<Rightarrow> (nat \<Rightarrow> 32 word) \<Rightarrow> 32 word \<Rightarrow> (nat \<Rightarrow> 32 word) \<Rightarrow> nat
     \<Rightarrow> 32 word" where
  "described_begin U inputShape beginData beginMask stridesData idx =
     (let dim = getSizeOfDimension U inputShape (word_of_nat idx);
          positiveStride = (0 <s stridesData idx) in
      if bit beginMask idx then (if positiveStride then 0 else dim - 1)
      else ClampedIndex U (beginData idx) dim positiveStride)"

definition described_end ::
  "'dims OperationsUtils \<Rightarrow> Shape \<Rightarrow> (nat \<Rightarrow> 32 word) \<Rightarrow> 32 word \<Rightarrow> (nat \<Rightarrow> 32 word) \<Rightarrow> nat
     \<Rightarrow> 32 word" where
  "described_end U inputShape endData endMask stridesData idx =
     (let dim = getSizeOfDimension U inputShape (word_of_nat idx);
          positiveStride = (0 <s stridesData idx) in
      if bit endMask idx then (if positiveStride then dim else - 1)
      else ClampedIndex U (endData idx) dim positiveStride)"

text \<open>
  The dimensions from the last down to the first, then the positions from the rank up
  to 4.
\<close>

definition described_vector :: "nat \<Rightarrow> (nat \<Rightarrow> 32 word) \<Rightarrow> 32 word \<Rightarrow> 32 word list" where
  "described_vector rank f pad = map f (rev [0..<rank]) @ replicate (4 - rank) pad"

section \<open>Auxiliary definitions for the properties\<close>

text \<open>
  A PreparedModelCallback that has been completed with \<open>status\<close> and
  \<open>preparedModel\<close>.
\<close>

definition completed_with ::
  "ErrorStatus \<Rightarrow> 'pm option \<Rightarrow> ('pm, 'a) PreparedModelCallback_scheme \<Rightarrow> bool" where
  "completed_with status preparedModel s \<longleftrightarrow>
     mNotified s \<and> PreparedModelCallback.mErrorStatus s = status \<and>
     mPreparedModel s = preparedModel"

text \<open>
  Concrete objects on which the properties are evaluated: a new PreparedModelCallback
  and a new ExecutionCallback (their own members hold arbitrary initial values), an
  instance of the helpers of \<open>stridedSliceGeneric\<close> that reads the dimensions of a
  shape from its list and leaves indices and masks as they are, a shape of two
  dimensions, and a two-element array.
\<close>

definition example_prepared :: "nat PreparedModelCallback" where
  "example_prepared =
     CallbackBase.extend CallbackBase_new
       (PreparedModelCallback.fields GENERAL_FAILURE None)"

definition example_execution :: "nat ExecutionCallback" where
  "example_execution =
     CallbackBase.extend CallbackBase_new
       (ExecutionCallback.fields GENERAL_FAILURE [] None)"

definition example_utils :: "(32 word list) OperationsUtils" where
  "example_utils =
     \<lparr>getNumberOfDimensions = (\<lambda>s. word_of_nat (length (dimensions s))),
      getSizeOfDimension = (\<lambda>s i. dimensions s ! unat i),
      ClampedIndex = (\<lambda>i d p. i),
      ReverseMaskBits = (\<lambda>m n. m),
      convertShapeToDims = dimensions\<rparr>"

definition example_shape :: "OperandType \<Rightarrow> Shape" where
  "example_shape t = \<lparr>type = t, dimensions = [2, 3]\<rparr>"

definition example_data :: "32 word \<Rightarrow> 32 word \<Rightarrow> nat \<Rightarrow> 32 word" where
  "example_data a b idx = (if idx = 0 then a else b)"

section \<open>Properties of the callback objects\<close>

subsection \<open>What the base calls leave unchanged\<close>

lemma join_thread_locked_fields [simp]:
  "mNotified (join_thread_locked s) = mNotified s"
  "mPostWork (join_thread_locked s) = mPostWork s"
  "postWorkRuns (join_thread_locked s) = postWorkRuns s"
  by (simp_all add: join_thread_locked_def split: thread.split)

lemma join_thread_locked_pm_fields [simp]:
  "PreparedModelCallback.mErrorStatus (join_thread_locked s) = PreparedModelCallback.mErrorStatus s"
  "mPreparedModel (join_thread_locked s) = mPreparedModel s"
  by (simp_all add: join_thread_locked_def split: thread.split)

lemma join_thread_locked_ec_fields [simp]:
  "ExecutionCallback.mErrorStatus (join_thread_locked s) = ExecutionCallback.mErrorStatus s"
  "mOutputShapes (join_thread_locked s) = mOutputShapes s"
  by (simp_all add: join_thread_locked_def split: thread.split)

lemma CallbackBase_notify_notified [simp]: "mNotified (CallbackBase_notify s)"
  by (simp add: CallbackBase_notify_def Let_def split: option.split)

lemma CallbackBase_notify_pm_fields [simp]:
  "PreparedModelCallback.mErrorStatus (CallbackBase_notify s) = PreparedModelCallback.mErrorStatus s"
  "mPreparedModel (CallbackBase_notify s) = mPreparedModel s"
  by (simp_all add: CallbackBase_notify_def Let_def split: option.split)

lemma CallbackBase_notify_ec_fields [simp]:
  "ExecutionCallback.mErrorStatus (CallbackBase_notify s) = ExecutionCallback.mErrorStatus s"
  "mOutputShapes (CallbackBase_notify s) = mOutputShapes s"
  by (simp_all add: CallbackBase_notify_def Let_def split: option.split)

lemma call_step_notified: "mNotified s \<Longrightarrow> mNotified (snd (call_step c s))"
  by (cases c)
    (simp_all add: wait_def on_finish_def bind_thread_def join_thread_def
      Let_def split: option.split)

lemma call_step_pm_fields:
  "PreparedModelCallback.mErrorStatus (snd (call_step c s)) = PreparedModelCallback.mErrorStatus s"
  "mPreparedModel (snd (call_step c s)) = mPreparedModel s"
  by (cases c;
      simp add: wait_def on_finish_def bind_thread_def join_thread_def Let_def)+

lemma call_step_mOnFinish: "mOnFinish (snd (call_step c s)) = mOnFinish s"
  by (cases c)
    (simp_all add: wait_def on_finish_def bind_thread_def join_thread_def
      join_thread_locked_def CallbackBase_notify_def Let_def split: option.split thread.split)

lemma run_mOnFinish: "mOnFinish (snd (run cs s)) = mOnFinish s"
proof (induction cs arbitrary: s)
  case Nil
  show ?case by simp
next
  case (Cons c cs)
  have "mOnFinish (snd (run cs (snd (call_step c s)))) = mOnFinish s"
    by (simp add: Cons.IH call_step_mOnFinish)
  then show ?case by (simp add: split_beta)
qed

subsection \<open>Reading a completed PreparedModelCallback\<close>

lemma pm_step_completed:
  assumes "completed_with status pm s"
  shows "completed_with status pm (snd (pm_step c s)) \<and>
         pm_expected status pm (c, fst (pm_step c s))"
proof (cases c)
  case (Base_call b)
  with assms show ?thesis
    by (simp add: completed_with_def split_beta call_step_notified call_step_pm_fields)
next
  case Call_getStatus
  with assms show ?thesis
    by (simp add: completed_with_def PreparedModelCallback_getStatus_def wait_def)
next
  case Call_getPreparedModel
  with assms show ?thesis
    by (simp add: completed_with_def getPreparedModel_def wait_def)
qed

lemma pm_run_completed:
  "completed_with status pm s \<Longrightarrow> pm_run cs s = (rs, s') \<Longrightarrow>
     length rs = length cs \<and> list_all (pm_expected status pm) (zip cs rs)"
proof (induction cs arbitrary: s rs s')
  case Nil
  then show ?case by simp
next
  case (Cons c cs)
  obtain r s1 where step: "pm_step c s = (r, s1)" by (cases "pm_step c s")
  obtain rs1 s2 where rest: "pm_run cs s1 = (rs1, s2)" by (cases "pm_run cs s1")
  from pm_step_completed [OF Cons.prems(1), of c] step
  have inv: "completed_with status pm s1" and exp: "pm_expected status pm (c, r)"
    by simp_all
  from Cons.IH [OF inv rest]
  have "length rs1 = length cs \<and> list_all (pm_expected status pm) (zip cs rs1)" .
  moreover from Cons.prems(2) step rest have "rs = r # rs1" by simp
  ultimately show ?case using exp by simp
qed

text \<open>
  C3. Let a PreparedModelCallback be completed by one call of \<open>notify\<close> or of
  \<open>notify_1_2\<close> with \<open>(status, preparedModel)\<close>. In every history of later calls on
  the object, by any threads and of any length (calls of \<open>getStatus\<close> and
  \<open>getPreparedModel\<close>, mixed with calls of the base class), every call answers, every
  \<open>getStatus\<close> returns exactly \<open>status\<close> and every \<open>getPreparedModel\<close> returns exactly
  \<open>preparedModel\<close> (the null reference when that is what was passed).
\<close>

theorem getters_return_what_notify_stored:
  assumes "s1 = PreparedModelCallback_notify status preparedModel s \<or>
           s1 = PreparedModelCallback_notify_1_2 status preparedModel s"
    and "pm_run cs s1 = (rs, s')"
  shows "length rs = length cs \<and> list_all (pm_expected status preparedModel) (zip cs rs)"
proof -
  from assms(1) have "completed_with status preparedModel s1"
    by (auto simp add: completed_with_def PreparedModelCallback_notify_def
        PreparedModelCallback_notify_1_2_def)
  then show ?thesis using assms(2) by (rule pm_run_completed)
qed

theorem getters_return_what_notify_stored_witness:
  "pm_run [Call_getStatus, Base_call Call_wait, Call_getPreparedModel, Call_getStatus]
     (PreparedModelCallback_notify GENERAL_FAILURE None example_prepared) =
     ([Status GENERAL_FAILURE, Base_outcome Returns, PreparedModel None, Status GENERAL_FAILURE],
      PreparedModelCallback_notify GENERAL_FAILURE None example_prepared) \<and>
   list_all (pm_expected GENERAL_FAILURE None)
     (zip [Call_getStatus, Base_call Call_wait, Call_getPreparedModel, Call_getStatus]
        [Status GENERAL_FAILURE, Base_outcome Returns, PreparedModel None, Status GENERAL_FAILURE])"
proof -
  have run: "pm_run [Call_getStatus, Base_call Call_wait, Call_getPreparedModel, Call_getStatus]
     (PreparedModelCallback_notify GENERAL_FAILURE None example_prepared) =
     ([Status GENERAL_FAILURE, Base_outcome Returns, PreparedModel None, Status GENERAL_FAILURE],
      PreparedModelCallback_notify GENERAL_FAILURE None example_prepared)"
    by (simp add: PreparedModelCallback_notify_def PreparedModelCallback_getStatus_def
        getPreparedModel_def wait_def join_thread_locked_def CallbackBase_notify_def
        example_prepared_def CallbackBase_new_def CallbackBase.defs
        PreparedModelCallback.defs)
  from getters_return_what_notify_stored [OF disjI1 [OF refl] run] run
  show ?thesis by simp
qed

subsection \<open>The finish transform of an ExecutionCallback\<close>

text \<open>
  C4. Let \<open>setOnFinish(t)\<close> be called on an ExecutionCallback and then, after any
  history \<open>cs\<close> of calls of the base class, let the object be completed with
  \<open>(status, outputShapes)\<close>, through \<open>notify_1_2\<close> or through the two-argument
  \<open>notify\<close>. Then \<open>getStatus\<close> returns \<open>t status\<close>, the transformed value, and
  \<open>getOutputShapes\<close> returns \<open>outputShapes\<close> as they were passed.
\<close>

theorem finish_transform_applies_to_status_only:
  "(let s1 = snd (run cs (setOnFinish (Some t) s));
        s2 = ExecutionCallback_notify_1_2 status outputShapes s1;
        s3 = ExecutionCallback_notify_shapes status outputShapes s1
    in map_option fst (ExecutionCallback_getStatus s2) = Some (t status) \<and>
       map_option fst (getOutputShapes s2) = Some outputShapes \<and>
       map_option fst (ExecutionCallback_getStatus s3) = Some (t status) \<and>
       map_option fst (getOutputShapes s3) = Some outputShapes)"
proof -
  define s1 where "s1 = snd (run cs (setOnFinish (Some t) s))"
  have fin: "mOnFinish s1 = Some t"
    by (simp add: s1_def run_mOnFinish setOnFinish_def)
  define s2 where "s2 = ExecutionCallback_notify_1_2 status outputShapes s1"
  have n: "mNotified s2" and st: "ExecutionCallback.mErrorStatus s2 = t status"
    and sh: "mOutputShapes s2 = outputShapes"
    by (simp_all add: s2_def ExecutionCallback_notify_1_2_def fin)
  have "map_option fst (ExecutionCallback_getStatus s2) = Some (t status)"
    "map_option fst (getOutputShapes s2) = Some outputShapes"
    by (simp_all add: ExecutionCallback_getStatus_def getOutputShapes_def wait_def n st sh)
  then show ?thesis
    by (simp add: Let_def ExecutionCallback_notify_shapes_def flip: s1_def s2_def)
qed

theorem finish_transform_applies_to_status_only_witness:
  "map_option fst (ExecutionCallback_getStatus (ExecutionCallback_notify_1_2 NONE [5]
      (snd (run [Call_on_finish None] (setOnFinish (Some (\<lambda>e. GENERAL_FAILURE)) example_execution)))))
     = Some GENERAL_FAILURE \<and>
   map_option fst (getOutputShapes (ExecutionCallback_notify_1_2 NONE [5]
      (snd (run [Call_on_finish None] (setOnFinish (Some (\<lambda>e. GENERAL_FAILURE)) example_execution)))))
     = Some [5]"
  using finish_transform_applies_to_status_only
    [of "[Call_on_finish None]" "\<lambda>e. GENERAL_FAILURE" example_execution NONE "[5]"]
  by (simp add: Let_def)

subsection \<open>The two-argument notify\<close>

text \<open>
  C6. For every error status \<open>s\<close> and every vector of output shapes \<open>v\<close>, the
  two-argument overload \<open>ExecutionCallback::notify(s, v)\<close> does to the object exactly
  what \<open>ExecutionCallback::notify_1_2(s, v)\<close> does, from every state of the object: the
  two entry points are equivalent.
\<close>

theorem notify_shapes_is_notify_1_2:
  "ExecutionCallback_notify_shapes s v = ExecutionCallback_notify_1_2 s v"
  by (rule ext) (simp add: ExecutionCallback_notify_shapes_def)

subsection \<open>Registering the post-work function\<close>

lemma call_step_mPostWork:
  "call_step c s = (r, s') \<Longrightarrow>
     mPostWork s' \<noteq> None \<longleftrightarrow>
       mPostWork s \<noteq> None \<or> (\<exists>w. c = Call_on_finish w \<and> r = Returns_bool True)"
  by (cases c)
    (auto simp add: wait_def on_finish_def bind_thread_def join_thread_def
      join_thread_locked_def CallbackBase_notify_def Let_def
      split: option.splits thread.splits if_splits)

lemma run_mPostWork:
  "run cs s = (rs, s') \<Longrightarrow>
     mPostWork s' \<noteq> None \<longleftrightarrow>
       mPostWork s \<noteq> None \<or> (\<exists>w. (Call_on_finish w, Returns_bool True) \<in> set (zip cs rs))"
proof (induction cs arbitrary: s rs s')
  case Nil
  then show ?case by simp
next
  case (Cons c cs)
  obtain r s1 where step: "call_step c s = (r, s1)" by (cases "call_step c s")
  obtain rs1 s2 where rest: "run cs s1 = (rs1, s2)" by (cases "run cs s1")
  from Cons.prems step rest have rs: "rs = r # rs1" and s': "s' = s2" by simp_all
  from Cons.IH [OF rest] call_step_mPostWork [OF step] show ?case
    unfolding rs s' by auto
qed

text \<open>
  C7. Take an object on which no post-work function is registered yet (a new one) and
  any history \<open>cs\<close> of calls on it, with results \<open>rs\<close>. A further \<open>on_finish(work)\<close>
  returns false and leaves the object, its stored post-work function included, as it is
  whenever \<open>work\<close> has no target or some \<open>on_finish\<close> of the history returned true;
  otherwise it stores \<open>work\<close> and returns true.
\<close>

theorem on_finish_registers_at_most_once:
  assumes "mPostWork s0 = None" and "run cs s0 = (rs, s)"
  shows "on_finish work s =
    (if work = None \<or> (\<exists>w. (Call_on_finish w, Returns_bool True) \<in> set (zip cs rs))
     then (False, s) else (True, s\<lparr>mPostWork := work\<rparr>))"
  using run_mPostWork [OF assms(2)] assms(1)
  by (auto simp add: on_finish_def)

theorem on_finish_registers_at_most_once_witness:
  "mPostWork CallbackBase_new = None \<and>
   run [Call_on_finish (Some (\<lambda>u. True)), Call_notify] CallbackBase_new =
     ([Returns_bool True, Returns],
      CallbackBase_new\<lparr>mNotified := True, mPostWork := Some (\<lambda>u. True), postWorkRuns := [True]\<rparr>) \<and>
   on_finish (Some (\<lambda>u. False))
     (CallbackBase_new\<lparr>mNotified := True, mPostWork := Some (\<lambda>u. True), postWorkRuns := [True]\<rparr>) =
     (False,
      CallbackBase_new\<lparr>mNotified := True, mPostWork := Some (\<lambda>u. True), postWorkRuns := [True]\<rparr>) \<and>
   run [] CallbackBase_new = ([], CallbackBase_new) \<and>
   on_finish (Some (\<lambda>u. False)) CallbackBase_new =
     (True, CallbackBase_new\<lparr>mPostWork := Some (\<lambda>u. False)\<rparr>)"
proof -
  have new: "mPostWork CallbackBase_new = None"
    by (simp add: CallbackBase_new_def)
  have run: "run [Call_on_finish (Some (\<lambda>u. True)), Call_notify] CallbackBase_new =
     ([Returns_bool True, Returns],
      CallbackBase_new\<lparr>mNotified := True, mPostWork := Some (\<lambda>u. True), postWorkRuns := [True]\<rparr>)"
    by (simp add: on_finish_def CallbackBase_notify_def CallbackBase_new_def)
  have run0: "run [] CallbackBase_new = ([], CallbackBase_new)"
    by simp
  from on_finish_registers_at_most_once [OF new run, of "Some (\<lambda>u. False)"]
    on_finish_registers_at_most_once [OF new run0, of "Some (\<lambda>u. False)"] new run
  show ?thesis by simp
qed

section \<open>Properties of stridedSliceGeneric\<close>

lemma bounds_loop_nonzero:
  "(\<forall>idx<n. stridesData idx \<noteq> 0) \<Longrightarrow>
   bounds_loop U inputShape beginData beginMask endData endMask stridesData n
     (starts, stops, strides) =
     Some (starts @ map (described_begin U inputShape beginData beginMask stridesData) (rev [0..<n]),
           stops @ map (described_end U inputShape endData endMask stridesData) (rev [0..<n]),
           strides @ map stridesData (rev [0..<n]))"
proof (induction n arbitrary: starts stops strides)
  case 0
  then show ?case by simp
next
  case (Suc n)
  then show ?case
    by (simp add: Let_def and_exp_eq_0_iff_not_bit described_begin_def described_end_def)
qed

lemma pad_loop_replicate:
  "pad_loop i (starts, stops, strides) =
     (starts @ replicate (nat (kMaxDim - i)) 0, stops @ replicate (nat (kMaxDim - i)) 1,
      strides @ replicate (nat (kMaxDim - i)) 1)"
proof (induction i "(starts, stops, strides)" arbitrary: starts stops strides
    rule: pad_loop.induct)
  case (1 i starts stops strides)
  show ?case
  proof (cases "i < kMaxDim")
    case True
    then have "nat (kMaxDim - i) = Suc (nat (kMaxDim - (i + 1)))" by simp
    with True 1 show ?thesis
      by (subst pad_loop.simps) (simp add: replicate_app_Cons_same)
  next
    case False
    then show ?thesis by (subst pad_loop.simps) simp
  qed
qed

lemma stridedSliceGeneric_stride_zero:
  assumes "bounds_loop U inputShape beginData beginMask endData endMask stridesData
             (nat (sint (getNumberOfDimensions U inputShape))) ([], [], []) = None"
  shows "stridedSliceGeneric U inputData inputShape beginData beginMask endData endMask stridesData
           outputData outputShape = (False, None)"
  unfolding stridedSliceGeneric_def Let_def assms by simp

lemma stridedSliceGeneric_checked:
  assumes "bounds_loop U inputShape beginData beginMask endData endMask stridesData
             (nat (sint (getNumberOfDimensions U inputShape))) ([], [], []) =
           Some (starts, stops, strides)"
  shows "stridedSliceGeneric U inputData inputShape beginData beginMask endData endMask stridesData
           outputData outputShape =
         (let pad = nat (kMaxDim - sint (getNumberOfDimensions U inputShape));
              slice = (\<lambda>T. \<lparr>element = T,
                arg_input_data = inputData,
                arg_input_dims = convertShapeToDims U inputShape,
                arg_begin_mask = ReverseMaskBits U beginMask (getNumberOfDimensions U inputShape),
                arg_end_mask = ReverseMaskBits U endMask (getNumberOfDimensions U inputShape),
                arg_starts = starts @ replicate pad 0,
                arg_stops = stops @ replicate pad 1,
                arg_strides = strides @ replicate pad 1,
                arg_output_data = outputData,
                arg_output_dims = convertShapeToDims U outputShape\<rparr>)
          in if type inputShape = TENSOR_FLOAT32 then (True, Some (slice Float32))
             else if type inputShape = TENSOR_QUANT8_ASYMM then (True, Some (slice UInt8))
             else (False, None))"
  unfolding stridedSliceGeneric_def Let_def assms by (simp add: pad_loop_replicate)

text \<open>
  C9. When the operand type of the input shape is neither \<open>TENSOR_FLOAT32\<close> nor
  \<open>TENSOR_QUANT8_ASYMM\<close>, \<open>stridedSliceGeneric\<close> returns false and calls no slice.
  When it is one of the two and the stride of every dimension of the input is not zero,
  it returns true.
\<close>

theorem stridedSliceGeneric_type_check:
  "(type inputShape \<noteq> TENSOR_FLOAT32 \<and> type inputShape \<noteq> TENSOR_QUANT8_ASYMM \<longrightarrow>
      stridedSliceGeneric U inputData inputShape beginData beginMask endData endMask stridesData
        outputData outputShape = (False, None)) \<and>
   ((type inputShape = TENSOR_FLOAT32 \<or> type inputShape = TENSOR_QUANT8_ASYMM) \<and>
    (\<forall>idx < nat (sint (getNumberOfDimensions U inputShape)). stridesData idx \<noteq> 0) \<longrightarrow>
      fst (stridedSliceGeneric U inputData inputShape beginData beginMask endData endMask
        stridesData outputData outputShape) = True)"
proof (intro conjI impI)
  assume other: "type inputShape \<noteq> TENSOR_FLOAT32 \<and> type inputShape \<noteq> TENSOR_QUANT8_ASYMM"
  show "stridedSliceGeneric U inputData inputShape beginData beginMask endData endMask stridesData
        outputData outputShape = (False, None)"
  proof (cases "bounds_loop U inputShape beginData beginMask endData endMask stridesData
             (nat (sint (getNumberOfDimensions U inputShape))) ([], [], [])")
    case None
    then show ?thesis by (rule stridedSliceGeneric_stride_zero)
  next
    case (Some v)
    obtain starts stops strides where "v = (starts, stops, strides)" by (cases v)
    with Some other show ?thesis by (simp add: stridedSliceGeneric_checked Let_def)
  qed
next
  assume ok: "(type inputShape = TENSOR_FLOAT32 \<or> type inputShape = TENSOR_QUANT8_ASYMM) \<and>
    (\<forall>idx < nat (sint (getNumberOfDimensions U inputShape)). stridesData idx \<noteq> 0)"
  then have nz: "\<forall>idx < nat (sint (getNumberOfDimensions U inputShape)). stridesData idx \<noteq> 0"
    by simp
  from ok have "type inputShape = TENSOR_FLOAT32 \<or> type inputShape = TENSOR_QUANT8_ASYMM"
    by simp
  then show "fst (stridedSliceGeneric U inputData inputShape beginData beginMask endData endMask
        stridesData outputData outputShape) = True"
    by (auto simp add: stridedSliceGeneric_checked [OF bounds_loop_nonzero [OF nz]] Let_def)
qed

theorem stridedSliceGeneric_type_check_witness:
  "type (example_shape (Other_OperandType 0)) \<noteq> TENSOR_FLOAT32 \<and>
   type (example_shape (Other_OperandType 0)) \<noteq> TENSOR_QUANT8_ASYMM \<and>
   stridedSliceGeneric example_utils () (example_shape (Other_OperandType 0)) (example_data 0 1) 1
     (example_data 2 3) 0 (example_data 1 (- 1)) () (example_shape (Other_OperandType 0)) =
     (False, None) \<and>
   type (example_shape TENSOR_QUANT8_ASYMM) = TENSOR_QUANT8_ASYMM \<and>
   example_data 1 (- 1) 0 \<noteq> 0 \<and> example_data 1 (- 1) 1 \<noteq> 0 \<and>
   fst (stridedSliceGeneric example_utils () (example_shape TENSOR_QUANT8_ASYMM) (example_data 0 1) 1
     (example_data 2 3) 0 (example_data 1 (- 1)) () (example_shape TENSOR_QUANT8_ASYMM)) = True"
proof -
  have other: "type (example_shape (Other_OperandType 0)) \<noteq> TENSOR_FLOAT32 \<and>
      type (example_shape (Other_OperandType 0)) \<noteq> TENSOR_QUANT8_ASYMM"
    by (simp add: example_shape_def)
  have ok: "(type (example_shape TENSOR_QUANT8_ASYMM) = TENSOR_FLOAT32 \<or>
       type (example_shape TENSOR_QUANT8_ASYMM) = TENSOR_QUANT8_ASYMM) \<and>
      (\<forall>idx < nat (sint (getNumberOfDimensions example_utils (example_shape TENSOR_QUANT8_ASYMM))).
         example_data 1 (- 1) idx \<noteq> 0)"
    by (simp add: example_shape_def example_data_def)
  have refused: "stridedSliceGeneric example_utils () (example_shape (Other_OperandType 0))
     (example_data 0 1) 1 (example_data 2 3) 0 (example_data 1 (- 1)) ()
     (example_shape (Other_OperandType 0)) = (False, None)"
    by (rule stridedSliceGeneric_type_check [THEN conjunct1, THEN mp, OF other])
  have sliced: "fst (stridedSliceGeneric example_utils () (example_shape TENSOR_QUANT8_ASYMM)
     (example_data 0 1) 1 (example_data 2 3) 0 (example_data 1 (- 1)) ()
     (example_shape TENSOR_QUANT8_ASYMM)) = True"
    by (rule stridedSliceGeneric_type_check [THEN conjunct2, THEN mp, OF ok])
  have "example_data 1 (- 1) 0 \<noteq> 0 \<and> example_data 1 (- 1) 1 \<noteq> 0"
    by (simp add: example_data_def)
  with refused sliced other show ?thesis
    by (simp add: example_shape_def)
qed

text \<open>
  C10. For an input of rank 1 to 4 whose strides are all nonzero, \<open>stridedSliceGeneric\<close>
  hands to the slice three vectors of four entries. They list the dimensions from the
  last down to the first: for dimension \<open>idx\<close> of size \<open>dim\<close> the begin index is 0 for
  a positive stride (\<open>dim - 1\<close> for a negative one) when bit \<open>idx\<close> of \<open>beginMask\<close> is
  set and \<open>ClampedIndex(beginData[idx], dim, positiveStride)\<close> otherwise, the end index
  is \<open>dim\<close> for a positive stride (\<open>-1\<close> for a negative one) when bit \<open>idx\<close> of
  \<open>endMask\<close> is set and \<open>ClampedIndex(endData[idx], dim, positiveStride)\<close> otherwise,
  and the stride is the one given. The positions from the rank up to 4 hold begin 0,
  end 1 and stride 1. Both masks are passed through \<open>ReverseMaskBits\<close> over the rank
  before the slice is applied. (The slice is applied for the two supported operand
  types; for any other type the vectors are dropped and the function returns false.)
\<close>

theorem stridedSliceGeneric_bounds:
  assumes rank: "rank = nat (sint (getNumberOfDimensions U inputShape))"
    and lo: "1 \<le> rank" and hi: "rank \<le> 4"
    and nz: "\<forall>idx < rank. stridesData idx \<noteq> 0"
  shows "stridedSliceGeneric U inputData inputShape beginData beginMask endData endMask stridesData
           outputData outputShape =
         (let slice = (\<lambda>T. \<lparr>element = T,
                arg_input_data = inputData,
                arg_input_dims = convertShapeToDims U inputShape,
                arg_begin_mask = ReverseMaskBits U beginMask (getNumberOfDimensions U inputShape),
                arg_end_mask = ReverseMaskBits U endMask (getNumberOfDimensions U inputShape),
                arg_starts = described_vector rank
                  (described_begin U inputShape beginData beginMask stridesData) 0,
                arg_stops = described_vector rank
                  (described_end U inputShape endData endMask stridesData) 1,
                arg_strides = described_vector rank stridesData 1,
                arg_output_data = outputData,
                arg_output_dims = convertShapeToDims U outputShape\<rparr>)
          in if type inputShape = TENSOR_FLOAT32 then (True, Some (slice Float32))
             else if type inputShape = TENSOR_QUANT8_ASYMM then (True, Some (slice UInt8))
             else (False, None))"
proof -
  from lo rank have pos: "0 \<le> sint (getNumberOfDimensions U inputShape)" by linarith
  then have pad: "nat (kMaxDim - sint (getNumberOfDimensions U inputShape)) =
      4 - nat (sint (getNumberOfDimensions U inputShape))"
    by (simp add: kMaxDim_def nat_diff_distrib')
  from nz have nz': "\<forall>idx < nat (sint (getNumberOfDimensions U inputShape)). stridesData idx \<noteq> 0"
    by (simp add: rank)
  show ?thesis
    by (simp add: stridedSliceGeneric_checked [OF bounds_loop_nonzero [OF nz']] pad
        described_vector_def Let_def rank)
qed

theorem stridedSliceGeneric_bounds_witness:
  "(2::nat) = nat (sint (getNumberOfDimensions example_utils (example_shape TENSOR_FLOAT32))) \<and>
   (1::nat) \<le> 2 \<and> (2::nat) \<le> 4 \<and>
   example_data 1 (- 1) 0 \<noteq> 0 \<and> example_data 1 (- 1) 1 \<noteq> 0 \<and>
   stridedSliceGeneric example_utils () (example_shape TENSOR_FLOAT32) (example_data 0 1) 1
     (example_data 2 3) 0 (example_data 1 (- 1)) () (example_shape TENSOR_FLOAT32) =
   (True, Some \<lparr>element = Float32, arg_input_data = (), arg_input_dims = [2, 3],
      arg_begin_mask = 1, arg_end_mask = 0, arg_starts = [1, 0, 0, 0],
      arg_stops = [3, 2, 1, 1], arg_strides = [- 1, 1, 1, 1],
      arg_output_data = (), arg_output_dims = [2, 3]\<rparr>)"
proof -
  have rank: "(2::nat) =
      nat (sint (getNumberOfDimensions example_utils (example_shape TENSOR_FLOAT32)))"
    by (simp add: example_utils_def example_shape_def)
  have nz: "\<forall>idx < (2::nat). example_data 1 (- 1) idx \<noteq> 0"
    by (simp add: example_data_def)
  have rev2: "rev [0..<2] = [1, 0::nat]"
    by (simp add: numeral_2_eq_2)
  have lo: "(1::nat) \<le> 2" and hi: "(2::nat) \<le> 4"
    by simp_all
  have call: "stridedSliceGeneric example_utils () (example_shape TENSOR_FLOAT32)
     (example_data 0 1) 1 (example_data 2 3) 0 (example_data 1 (- 1)) ()
     (example_shape TENSOR_FLOAT32) =
   (True, Some \<lparr>element = Float32, arg_input_data = (), arg_input_dims = [2, 3],
      arg_begin_mask = 1, arg_end_mask = 0, arg_starts = [1, 0, 0, 0],
      arg_stops = [3, 2, 1, 1], arg_strides = [- 1, 1, 1, 1],
      arg_output_data = (), arg_output_dims = [2, 3]\<rparr>)"
    unfolding stridedSliceGeneric_bounds [OF rank lo hi nz]
    by (simp add: described_vector_def rev2 described_begin_def described_end_def
        example_utils_def example_shape_def example_data_def word_sless_alt numeral_2_eq_2)
  from rank call show ?thesis
    by (simp add: example_data_def)
qed

end
